theory Spec2Isabelle
  imports Complex_Main
begin

section \<open>Synthetic telecom data generator (generate_data.py)\<close>

text \<open>
  The module draws every random value from NumPy's global random stream and reads the
  wall clock with \<open>datetime.now()\<close>. Neither NumPy nor the clock is part of the module, so
  both are parameters of the model:
  \<^item> the stream is a state of an arbitrary type \<open>'g\<close>, and each \<open>np.random\<close> function used by
    the module is a field of the record \<open>sampler\<close>, taking the stream state and returning
    the drawn value with the next state;
  \<^item> the clock is a function from the number of earlier readings to the reading, in
    microseconds.
  Python floats are idealised as real numbers (exact arithmetic), Python ints are \<open>int\<close>.
\<close>

subsection \<open>The library interface\<close>

datatype error = ValueError

record 'g sampler =
  random_seed :: "int \<Rightarrow> 'g"
  random_normal :: "real \<Rightarrow> real \<Rightarrow> 'g \<Rightarrow> real \<times> 'g"
  random_exponential :: "real \<Rightarrow> 'g \<Rightarrow> real \<times> 'g"
  random_lognormal :: "real \<Rightarrow> real \<Rightarrow> 'g \<Rightarrow> real \<times> 'g"
  random_poisson :: "real \<Rightarrow> 'g \<Rightarrow> int \<times> 'g"
  poisson_lam_max :: real
  random_binomial :: "int \<Rightarrow> real \<Rightarrow> 'g \<Rightarrow> int \<times> 'g"
  random_choice :: "string list \<Rightarrow> real list \<Rightarrow> 'g \<Rightarrow> string \<times> 'g"
  random_randint :: "int \<Rightarrow> int \<Rightarrow> 'g \<Rightarrow> int \<times> 'g"

text \<open>
  \<open>np.random.seed(s)\<close> replaces the whole stream state by one that depends on \<open>s\<close> only,
  hence \<open>random_seed\<close> has no state argument. \<open>np.random.poisson(lam)\<close> raises ValueError
  when \<open>lam\<close> is negative or above a library constant, here \<open>poisson_lam_max\<close>.
\<close>

definition poisson_checked :: "'g sampler \<Rightarrow> real \<Rightarrow> 'g \<Rightarrow> error + (int \<times> 'g)" where
  "poisson_checked smp lam g =
     (if lam < 0 \<or> poisson_lam_max smp < lam then Inl ValueError
      else Inr (random_poisson smp lam g))"

subsection \<open>Python built-ins\<close>

text \<open>\<open>int(x)\<close> on a float truncates towards zero.\<close>

definition py_int :: "real \<Rightarrow> int" where
  "py_int x = (if 0 \<le> x then \<lfloor>x\<rfloor> else \<lceil>x\<rceil>)"

text \<open>\<open>round(x, 2)\<close>: the nearest multiple of 1/100, a tie going to the even one.\<close>

definition round_half_even :: "real \<Rightarrow> int" where
  "round_half_even y =
     (let f = \<lfloor>y\<rfloor>; d = y - of_int f
      in if d < 1 / 2 then f
         else if 1 / 2 < d then f + 1
         else if even f then f else f + 1)"

definition py_round2 :: "real \<Rightarrow> real" where
  "py_round2 x = of_int (round_half_even (x * 100)) / 100"

text \<open>The format specifications \<open>:06d\<close> and \<open>:08d\<close> on a non-negative integer.\<close>

fun digits_of :: "nat \<Rightarrow> string" where
  "digits_of n =
     (if n < 10 then [char_of (48 + n)]
      else digits_of (n div 10) @ [char_of (48 + n mod 10)])"

definition zero_pad :: "nat \<Rightarrow> nat \<Rightarrow> string" where
  "zero_pad w n = replicate (w - length (digits_of n)) (CHR ''0'') @ digits_of n"

subsection \<open>Customer rows\<close>

definition ghana_cities :: "string list" where
  "ghana_cities = [''Accra'', ''Kumasi'', ''Tamale'', ''Sekondi-Takoradi'', ''Cape Coast'',
     ''Tema'', ''Obuasi'', ''Koforidua'', ''Sunyani'', ''Ho'']"

definition ghana_city_weights :: "real list" where
  "ghana_city_weights = [0.3, 0.2, 0.1, 0.08, 0.08, 0.07, 0.05, 0.04, 0.04, 0.04]"

text \<open>
  Lines 20 to 56 of the loop body: the sampled fields, in the order of the draws. The
  result lists the local variables \<open>age\<close>, \<open>account_length\<close>, \<open>monthly_minutes\<close>,
  \<open>monthly_data_gb\<close>, \<open>monthly_sms\<close>, \<open>monthly_charge\<close>, \<open>late_payments\<close>,
  \<open>international_calls\<close>, \<open>customer_service_calls\<close>, \<open>contract_type\<close> and
  \<open>device_age_months\<close>.
\<close>

type_synonym profile =
  "int \<times> int \<times> int \<times> real \<times> int \<times> real \<times> int \<times> int \<times> int \<times> string \<times> int"

definition sample_profile :: "'g sampler \<Rightarrow> 'g \<Rightarrow> profile \<times> 'g" where
  "sample_profile smp g0 =
     (let (age0, g1) = random_normal smp 35 12 g0;
          age = max 18 (min 80 (py_int age0));
          (account_length0, g2) = random_exponential smp 24 g1;
          account_length = max 1 (min 120 (py_int account_length0));
          (monthly_minutes0, g3) = random_lognormal smp 6 1 g2;
          monthly_minutes = max 0 (py_int monthly_minutes0);
          (monthly_data_gb0, g4) = random_exponential smp 5 g3;
          monthly_data_gb = py_round2 (max 0.1 monthly_data_gb0);
          (monthly_sms, g5) = random_poisson smp 50 g4;
          monthly_charge0 = 20 + (of_int monthly_minutes * 0.05) + (monthly_data_gb * 2)
                            + (of_int monthly_sms * 0.1);
          monthly_charge = py_round2 monthly_charge0;
          (late_payments0, g6) = random_poisson smp 0.5 g5;
          (late_payments, g7) =
             (if account_length < 6 then random_poisson smp 0.2 g6 else (late_payments0, g6));
          (international_calls0, g8) = random_exponential smp 2 g7;
          international_calls = max 0 (py_int international_calls0);
          (customer_service_calls, g9) = random_poisson smp 1 g8;
          (contract_type, g10) = random_choice smp [''Prepaid'', ''Postpaid''] [0.6, 0.4] g9;
          (device_age_months0, g11) = random_exponential smp 18 g10;
          device_age_months = max 1 (min 60 (py_int device_age_months0))
      in ((age, account_length, monthly_minutes, monthly_data_gb, monthly_sms, monthly_charge,
           late_payments, international_calls, customer_service_calls, contract_type,
           device_age_months), g11))"

text \<open>Lines 60 to 72: the churn risk score, accumulated condition by condition.\<close>

definition churn_probability :: "int \<Rightarrow> int \<Rightarrow> real \<Rightarrow> int \<Rightarrow> int \<Rightarrow> real" where
  "churn_probability late_payments customer_service_calls monthly_charge account_length age =
     (let p0 = 0.05;
          p1 = (if late_payments > 2 then p0 + 0.3 else p0);
          p2 = (if customer_service_calls > 3 then p1 + 0.2 else p1);
          p3 = (if monthly_charge > 80 then p2 + 0.15 else p2);
          p4 = (if account_length < 3 then p3 + 0.25 else p3);
          p5 = (if age < 25 \<or> age > 65 then p4 + 0.1 else p4)
      in p5)"

text \<open>Lines 77 to 83: the fraud risk score.\<close>

definition fraud_probability :: "int \<Rightarrow> real \<Rightarrow> int \<Rightarrow> real" where
  "fraud_probability international_calls monthly_charge account_length =
     (let q0 = 0.02;
          q1 = (if international_calls > 10 then q0 + 0.1 else q0);
          q2 = (if monthly_charge > 200 then q1 + 0.15 else q1);
          q3 = (if account_length < 1 then q2 + 0.2 else q2)
      in q3)"

text \<open>One row of the customer table: the dictionary \<open>customer_data\<close>, key by key.\<close>

record customer =
  customer_id :: string
  age :: int
  city :: string
  account_length_months :: int
  contract_type :: string
  monthly_minutes :: int
  monthly_data_gb :: real
  monthly_sms :: int
  monthly_charge :: real
  late_payments :: int
  international_calls :: int
  customer_service_calls :: int
  device_age_months :: int
  churned :: int
  is_fraud :: int

text \<open>The body of the loop for the index \<open>i\<close>: the new row and the stream after it.\<close>

definition customer_row :: "'g sampler \<Rightarrow> nat \<Rightarrow> 'g \<Rightarrow> customer \<times> 'g" where
  "customer_row smp i g0 =
     (let cid = ''CUST_'' @ zero_pad 6 (i + 1);
          ((age, account_length, monthly_minutes, monthly_data_gb, monthly_sms, monthly_charge,
            late_payments, international_calls, customer_service_calls, contract_type,
            device_age_months), g1) = sample_profile smp g0;
          churn_p = churn_probability late_payments customer_service_calls monthly_charge
                      account_length age;
          (churned, g2) = random_binomial smp 1 (min churn_p 0.8) g1;
          fraud_p = fraud_probability international_calls monthly_charge account_length;
          (is_fraud, g3) = random_binomial smp 1 (min fraud_p 0.3) g2;
          (city, g4) = random_choice smp ghana_cities ghana_city_weights g3
      in (\<lparr>customer_id = cid, age = age, city = city,
           account_length_months = account_length, contract_type = contract_type,
           monthly_minutes = monthly_minutes, monthly_data_gb = monthly_data_gb,
           monthly_sms = monthly_sms, monthly_charge = monthly_charge,
           late_payments = late_payments, international_calls = international_calls,
           customer_service_calls = customer_service_calls,
           device_age_months = device_age_months, churned = churned, is_fraud = is_fraud\<rparr>,
          g4))"

text \<open>\<open>for i in range(num_customers)\<close>, appending each row to \<open>data\<close>.\<close>

fun customer_loop :: "'g sampler \<Rightarrow> nat list \<Rightarrow> customer list \<Rightarrow> 'g \<Rightarrow> customer list \<times> 'g" where
  "customer_loop smp [] data g = (data, g)"
| "customer_loop smp (i # rest) data g =
     (let (row, g') = customer_row smp i g in customer_loop smp rest (data @ [row]) g')"

text \<open>
  The generator takes the stream state at the call and returns the table with the stream
  state it leaves behind. No statement of the function raises, so the result is always
  \<open>Inr\<close>. A non-positive \<open>num_customers\<close> makes \<open>range\<close> empty.
\<close>

definition generate_telecom_customer_data ::
  "'g sampler \<Rightarrow> int \<Rightarrow> 'g \<Rightarrow> error + (customer list \<times> 'g)" where
  "generate_telecom_customer_data smp num_customers g_before =
     (let g = random_seed smp 42
      in Inr (customer_loop smp [0 ..< nat num_customers] [] g))"

subsection \<open>Transactions\<close>

record txn =
  txn_customer_id :: string
  transaction_id :: string
  amount :: real
  transaction_type :: string
  timestamp :: int
  txn_is_fraud :: int

definition transaction_types :: "string list" where
  "transaction_types = [''Voice_Call'', ''Data_Usage'', ''SMS'', ''International'',
     ''Premium_Service'']"

definition microseconds_per_day :: int where
  "microseconds_per_day = 86400000000"

text \<open>
  The state of the transaction generator: the random stream and the number of clock
  readings made so far. Lines 125 to 154 build one transaction.
\<close>

definition make_transaction ::
  "'g sampler \<Rightarrow> (nat \<Rightarrow> int) \<Rightarrow> customer \<Rightarrow> txn list \<Rightarrow> 'g \<times> nat \<Rightarrow> txn \<times> ('g \<times> nat)" where
  "make_transaction smp clock customer transactions s =
     (let (g0, ticks) = s;
          (amount0, g1) = (if is_fraud customer \<noteq> 0 then random_lognormal smp 4 1.5 g0
                           else random_lognormal smp 2 0.8 g0);
          amount = max 1 (py_round2 amount0);
          (days_ago, g2) = random_randint smp 0 90 g1;
          transaction_time = clock ticks - days_ago * microseconds_per_day;
          (transaction_type, g3) =
             (if is_fraud customer \<noteq> 0
              then random_choice smp transaction_types [0.2, 0.2, 0.1, 0.3, 0.2] g2
              else random_choice smp transaction_types [0.4, 0.3, 0.2, 0.05, 0.05] g2)
      in (\<lparr>txn_customer_id = customer_id customer,
           transaction_id = ''TXN_'' @ zero_pad 8 (length transactions + 1),
           amount = amount, transaction_type = transaction_type,
           timestamp = transaction_time, txn_is_fraud = is_fraud customer\<rparr>,
          (g3, ticks + 1)))"

text \<open>\<open>for _ in range(num_transactions)\<close>.\<close>

fun transaction_loop ::
  "'g sampler \<Rightarrow> (nat \<Rightarrow> int) \<Rightarrow> customer \<Rightarrow> nat \<Rightarrow> txn list \<Rightarrow> 'g \<times> nat
     \<Rightarrow> txn list \<times> ('g \<times> nat)" where
  "transaction_loop smp clock customer 0 transactions s = (transactions, s)"
| "transaction_loop smp clock customer (Suc k) transactions s =
     (let (t, s') = make_transaction smp clock customer transactions s
      in transaction_loop smp clock customer k (transactions @ [t]) s')"

text \<open>\<open>for _, customer in customer_df.iterrows()\<close>.\<close>

fun rows_loop ::
  "'g sampler \<Rightarrow> (nat \<Rightarrow> int) \<Rightarrow> real \<Rightarrow> customer list \<Rightarrow> txn list \<Rightarrow> 'g \<times> nat
     \<Rightarrow> error + (txn list \<times> ('g \<times> nat))" where
  "rows_loop smp clock lam [] transactions s = Inr (transactions, s)"
| "rows_loop smp clock lam (customer # rest) transactions s =
     (case poisson_checked smp lam (fst s) of
        Inl e \<Rightarrow> Inl e
      | Inr (num_transactions, g) \<Rightarrow>
          (let (transactions', s') =
                 transaction_loop smp clock customer (nat num_transactions) transactions
                   (g, snd s)
           in rows_loop smp clock lam rest transactions' s'))"

text \<open>
  The second parameter of the source has a default: \<open>None\<close> is a call that leaves it out.
\<close>

definition default_transactions_per_customer :: real where
  "default_transactions_per_customer = 50"

definition generate_transaction_data ::
  "'g sampler \<Rightarrow> (nat \<Rightarrow> int) \<Rightarrow> customer list \<Rightarrow> real option \<Rightarrow> 'g \<times> nat
     \<Rightarrow> error + (txn list \<times> ('g \<times> nat))" where
  "generate_transaction_data smp clock customer_df transactions_per_customer s =
     (let lam = (case transactions_per_customer of
                   None \<Rightarrow> default_transactions_per_customer
                 | Some l \<Rightarrow> l)
      in rows_loop smp clock lam customer_df [] s)"

subsection \<open>The script\<close>

text \<open>
  Lines 162 and 165 with the two literals as parameters: both tables, as handed to
  \<open>to_csv\<close>.
\<close>

definition run_pipeline ::
  "'g sampler \<Rightarrow> (nat \<Rightarrow> int) \<Rightarrow> int \<Rightarrow> real \<Rightarrow> 'g \<times> nat
     \<Rightarrow> error + (customer list \<times> txn list)" where
  "run_pipeline smp clock n lam s =
     (case generate_telecom_customer_data smp n (fst s) of
        Inl e \<Rightarrow> Inl e
      | Inr (customer_data, g) \<Rightarrow>
          (case generate_transaction_data smp clock customer_data (Some lam) (g, snd s) of
             Inl e \<Rightarrow> Inl e
           | Inr (transaction_data, s') \<Rightarrow> Inr (customer_data, transaction_data)))"

definition script :: "'g sampler \<Rightarrow> (nat \<Rightarrow> int) \<Rightarrow> 'g \<times> nat \<Rightarrow> error + (customer list \<times> txn list)" where
  "script smp clock s = run_pipeline smp clock 10000 30 s"

subsection \<open>A small concrete sampler\<close>

text \<open>
  A deterministic stand-in for the library, used to run the model on concrete inputs: the
  stream state is a counter, and every draw depends on its parameters and on the counter.
\<close>

definition toy :: "nat sampler" where
  "toy = \<lparr>random_seed = (\<lambda>s. nat s),
          random_normal = (\<lambda>mu sigma g. (mu + sigma * (of_nat (g mod 9) - 4), g + 1)),
          random_exponential = (\<lambda>scale g. (scale * of_nat (g mod 4) / 2, g + 1)),
          random_lognormal = (\<lambda>mu sigma g. (of_nat (g mod 5) * 700, g + 1)),
          random_poisson = (\<lambda>lam g. (\<lfloor>lam / 10\<rfloor> + int (g mod 4), g + 1)),
          poisson_lam_max = 1000,
          random_binomial = (\<lambda>n p g. (if of_nat (g mod 10) < 10 * p then n else 0, g + 1)),
          random_choice = (\<lambda>options weights g. (options ! (g mod length options), g + 1)),
          random_randint = (\<lambda>lo hi g. (lo + int g mod (hi - lo), g + 1))\<rparr>"

subsection \<open>Notions used in the statements\<close>

text \<open>
  The state of the random stream when iteration \<open>k\<close> of the customer loop starts: the
  freshly seeded stream, advanced by the rows before \<open>k\<close>.
\<close>

fun stream_at :: "'g sampler \<Rightarrow> nat \<Rightarrow> 'g" where
  "stream_at smp 0 = random_seed smp 42"
| "stream_at smp (Suc k) = snd (customer_row smp k (stream_at smp k))"

text \<open>
  The churn and fraud risk scores as the specification words them: a base rate plus one
  increment for each risk condition that holds of the finished row.
\<close>

definition churn_spec :: "customer \<Rightarrow> real" where
  "churn_spec c =
     0.05 + (if late_payments c > 2 then 0.30 else 0)
          + (if customer_service_calls c > 3 then 0.20 else 0)
          + (if monthly_charge c > 80 then 0.15 else 0)
          + (if account_length_months c < 3 then 0.25 else 0)
          + (if age c < 25 \<or> age c > 65 then 0.10 else 0)"

definition fraud_spec :: "customer \<Rightarrow> real" where
  "fraud_spec c =
     0.02 + (if international_calls c > 10 then 0.10 else 0)
          + (if monthly_charge c > 200 then 0.15 else 0)
          + (if account_length_months c < 1 then 0.20 else 0)"

text \<open>The fraud risk score of the source, read off the fields of a finished row.\<close>

definition fraud_parameter :: "customer \<Rightarrow> real" where
  "fraud_parameter c =
     fraud_probability (international_calls c) (monthly_charge c) (account_length_months c)"

text \<open>
  What the model assumes of the library: \<open>np.random.poisson\<close> with a non-negative mean
  returns a non-negative integer, and \<open>np.random.binomial(1, p)\<close> with a probability \<open>p\<close>
  returns 0 or 1.
\<close>

definition library_contract :: "'g sampler \<Rightarrow> bool" where
  "library_contract smp \<longleftrightarrow>
     (\<forall>lam g. 0 \<le> lam \<longrightarrow> 0 \<le> fst (random_poisson smp lam g)) \<and>
     (\<forall>p g. 0 \<le> p \<and> p \<le> 1 \<longrightarrow> fst (random_binomial smp 1 p g) \<in> {0, 1})"

text \<open>The ranges of the fields of a customer row.\<close>

definition in_ranges :: "customer \<Rightarrow> bool" where
  "in_ranges c \<longleftrightarrow>
     18 \<le> age c \<and> age c \<le> 80 \<and>
     1 \<le> account_length_months c \<and> account_length_months c \<le> 120 \<and>
     1 \<le> device_age_months c \<and> device_age_months c \<le> 60 \<and>
     0.1 \<le> monthly_data_gb c \<and>
     0 \<le> monthly_minutes c \<and> 0 \<le> monthly_sms c \<and> 0 \<le> international_calls c \<and>
     0 \<le> customer_service_calls c \<and> 0 \<le> late_payments c \<and>
     churned c \<in> {0, 1} \<and> is_fraud c \<in> {0, 1}"

text \<open>A transaction with its timestamp blanked: every field but the clock-dependent one.\<close>

definition untimed :: "txn \<Rightarrow> txn" where
  "untimed t = t\<lparr>timestamp := 0\<rparr>"

text \<open>
  A transaction refers to a row of the table: it carries the identifier and the fraud
  label of that row.
\<close>

definition copies_of :: "customer list \<Rightarrow> txn \<Rightarrow> bool" where
  "copies_of df t \<longleftrightarrow>
     (\<exists>c \<in> set df. txn_customer_id t = customer_id c \<and> txn_is_fraud t = is_fraud c)"

text \<open>
  The row that the concrete sampler produces for the first customer, and the three
  transactions it then produces for that row when the mean is 1, as a function of the
  clock.
\<close>

definition sample_customer :: customer where
  "sample_customer = \<lparr>customer_id = ''CUST_000001'', age = 59, city = ''Cape Coast'',
     account_length_months = 36, contract_type = ''Prepaid'',
     monthly_minutes = 2800, monthly_data_gb = 5 / 2, monthly_sms = 7,
     monthly_charge = 1657 / 10, late_payments = 3,
     international_calls = 0, customer_service_calls = 1,
     device_age_months = 27, churned = 1, is_fraud = 0\<rparr>"

definition sample_transactions :: "(nat \<Rightarrow> int) \<Rightarrow> txn list" where
  "sample_transactions clock =
     [\<lparr>txn_customer_id = ''CUST_000001'', transaction_id = ''TXN_00000001'',
        amount = 700, transaction_type = ''International'',
        timestamp = clock 0 - 4924800000000, txn_is_fraud = 0\<rparr>,
      \<lparr>txn_customer_id = ''CUST_000001'', transaction_id = ''TXN_00000002'',
        amount = 2800, transaction_type = ''Data_Usage'',
        timestamp = clock 1 - 5184000000000, txn_is_fraud = 0\<rparr>,
      \<lparr>txn_customer_id = ''CUST_000001'', transaction_id = ''TXN_00000003'',
        amount = 1400, transaction_type = ''Premium_Service'',
        timestamp = clock 2 - 5443200000000, txn_is_fraud = 0\<rparr>]"

section \<open>The customer table\<close>

subsection \<open>The loop and the rows\<close>

lemma customer_loop_snoc:
  "customer_loop smp (xs @ [i]) data g =
     (let (d, g') = customer_loop smp xs data g; (row, g'') = customer_row smp i g'
      in (d @ [row], g''))"
  by (induction xs arbitrary: data g) (simp_all add: split_def Let_def)

lemma customer_loop_upt:
  "customer_loop smp [0 ..< m] [] (random_seed smp 42) =
     (map (\<lambda>k. fst (customer_row smp k (stream_at smp k))) [0 ..< m], stream_at smp m)"
  by (induction m) (simp_all add: customer_loop_snoc split_def Let_def)

lemma generate_table:
  "generate_telecom_customer_data smp n g0 =
     Inr (map (\<lambda>k. fst (customer_row smp k (stream_at smp k))) [0 ..< nat n],
          stream_at smp (nat n))"
  by (simp add: generate_telecom_customer_data_def customer_loop_upt)

lemma churn_probability_spec:
  "churn_probability lp cs mc al a =
     0.05 + (if lp > 2 then 0.30 else 0) + (if cs > 3 then 0.20 else 0)
          + (if mc > 80 then 0.15 else 0) + (if al < 3 then 0.25 else 0)
          + (if a < 25 \<or> a > 65 then 0.10 else 0)"
  by (simp add: churn_probability_def Let_def)

lemma fraud_probability_spec:
  "fraud_probability ic mc al =
     0.02 + (if ic > 10 then 0.10 else 0) + (if mc > 200 then 0.15 else 0)
          + (if al < 1 then 0.20 else 0)"
  by (simp add: fraud_probability_def Let_def)

lemma customer_row_fields:
  assumes "sample_profile smp g = ((a, al, mm, md, ms, mc, lp, ic, cs, ct, da), g1)"
  shows "age (fst (customer_row smp i g)) = a"
    and "account_length_months (fst (customer_row smp i g)) = al"
    and "monthly_minutes (fst (customer_row smp i g)) = mm"
    and "monthly_data_gb (fst (customer_row smp i g)) = md"
    and "monthly_sms (fst (customer_row smp i g)) = ms"
    and "monthly_charge (fst (customer_row smp i g)) = mc"
    and "late_payments (fst (customer_row smp i g)) = lp"
    and "international_calls (fst (customer_row smp i g)) = ic"
    and "customer_service_calls (fst (customer_row smp i g)) = cs"
    and "device_age_months (fst (customer_row smp i g)) = da"
    and "churned (fst (customer_row smp i g)) =
           fst (random_binomial smp 1 (min (churn_probability lp cs mc al a) 0.8) g1)"
    and "is_fraud (fst (customer_row smp i g)) =
           fst (random_binomial smp 1 (min (fraud_probability ic mc al) 0.3)
                 (snd (random_binomial smp 1 (min (churn_probability lp cs mc al a) 0.8) g1)))"
  using assms by (simp_all add: customer_row_def Let_def split_def)

lemma round_half_even_ge: "of_int m \<le> y \<Longrightarrow> m \<le> round_half_even y"
proof -
  assume "of_int m \<le> y"
  then have "m \<le> \<lfloor>y\<rfloor>" by (simp add: le_floor_iff)
  then show ?thesis by (simp add: round_half_even_def Let_def)
qed

lemma py_round2_ge_tenth: "1 / 10 \<le> y \<Longrightarrow> 1 / 10 \<le> py_round2 y"
proof -
  assume "1 / 10 \<le> y"
  then have "of_int 10 \<le> y * 100" by simp
  then have "10 \<le> round_half_even (y * 100)" by (rule round_half_even_ge)
  then have "(10::real) \<le> of_int (round_half_even (y * 100))" by linarith
  then show ?thesis by (simp add: py_round2_def)
qed

lemma profile_cases:
  obtains a al mm md ms mc lp ic cs ct da g1
  where "sample_profile smp g = ((a, al, mm, md, ms, mc, lp, ic, cs, ct, da), g1)"
  by (cases "sample_profile smp g") auto

lemma churn_probability_bounds:
  "0 \<le> min (churn_probability lp cs mc al a) 0.8" "min (churn_probability lp cs mc al a) 0.8 \<le> 1"
  by (simp_all add: churn_probability_def Let_def)

lemma fraud_probability_bounds:
  "0 \<le> min (fraud_probability ic mc al) 0.3" "min (fraud_probability ic mc al) 0.3 \<le> 1"
  by (simp_all add: fraud_probability_def Let_def)

lemma py_round2_max_tenth: "1 \<le> 10 * py_round2 (max (1 / 10) x)"
  using py_round2_ge_tenth [of "max (1 / 10) x"] by simp

lemma sample_profile_ranges_case:
  "case sample_profile smp g of ((a, al, mm, md, ms, mc, lp, ic, cs, ct, da), g1) \<Rightarrow>
     18 \<le> a \<and> a \<le> 80 \<and> 1 \<le> al \<and> al \<le> 120 \<and> 0 \<le> mm \<and> 1 / 10 \<le> md \<and> 0 \<le> ic \<and>
     1 \<le> da \<and> da \<le> 60 \<and>
     mc = py_round2 (20 + 0.05 * of_int mm + 2 * md + 0.1 * of_int ms)"
  by (simp add: sample_profile_def Let_def split_def py_round2_max_tenth mult.commute)

lemma sample_profile_ranges:
  assumes "sample_profile smp g = ((a, al, mm, md, ms, mc, lp, ic, cs, ct, da), g1)"
  shows "18 \<le> a" and "a \<le> 80" and "1 \<le> al" and "al \<le> 120" and "0 \<le> mm"
    and "1 / 10 \<le> md" and "0 \<le> ic" and "1 \<le> da" and "da \<le> 60"
    and "mc = py_round2 (20 + 0.05 * of_int mm + 2 * md + 0.1 * of_int ms)"
  using sample_profile_ranges_case [of smp g] assms by simp_all

lemma sample_profile_counts_case:
  assumes "library_contract smp"
  shows "case sample_profile smp g of ((a, al, mm, md, ms, mc, lp, ic, cs, ct, da), g1) \<Rightarrow>
     0 \<le> ms \<and> 0 \<le> lp \<and> 0 \<le> cs"
proof -
  have p: "\<And>lam g. 0 \<le> lam \<Longrightarrow> 0 \<le> fst (random_poisson smp lam g)"
    using assms by (simp add: library_contract_def)
  show ?thesis
    by (simp add: sample_profile_def Let_def split_def p)
qed

lemma sample_profile_counts:
  assumes "library_contract smp"
    and "sample_profile smp g = ((a, al, mm, md, ms, mc, lp, ic, cs, ct, da), g1)"
  shows "0 \<le> ms" and "0 \<le> lp" and "0 \<le> cs"
  using sample_profile_counts_case [OF assms(1), of g] assms(2) by simp_all

lemma row_churn_spec:
  assumes "sample_profile smp g = ((a, al, mm, md, ms, mc, lp, ic, cs, ct, da), g1)"
  shows "churn_spec (fst (customer_row smp i g)) = churn_probability lp cs mc al a"
  by (simp add: churn_spec_def customer_row_fields [OF assms] churn_probability_spec)

lemma row_fraud_spec:
  assumes "sample_profile smp g = ((a, al, mm, md, ms, mc, lp, ic, cs, ct, da), g1)"
  shows "fraud_spec (fst (customer_row smp i g)) = fraud_probability ic mc al"
  by (simp add: fraud_spec_def customer_row_fields [OF assms] fraud_probability_spec)

lemma row_churned:
  "churned (fst (customer_row smp i g)) =
     fst (random_binomial smp 1 (min (churn_spec (fst (customer_row smp i g))) 0.8)
           (snd (sample_profile smp g)))"
proof -
  obtain a al mm md ms mc lp ic cs ct da g1
    where p: "sample_profile smp g = ((a, al, mm, md, ms, mc, lp, ic, cs, ct, da), g1)"
    by (rule profile_cases)
  show ?thesis
    by (simp add: row_churn_spec [OF p] customer_row_fields(11) [OF p] p)
qed

lemma row_is_fraud:
  "is_fraud (fst (customer_row smp i g)) =
     fst (random_binomial smp 1 (min (fraud_spec (fst (customer_row smp i g))) 0.3)
           (snd (random_binomial smp 1 (min (churn_spec (fst (customer_row smp i g))) 0.8)
                  (snd (sample_profile smp g)))))"
proof -
  obtain a al mm md ms mc lp ic cs ct da g1
    where p: "sample_profile smp g = ((a, al, mm, md, ms, mc, lp, ic, cs, ct, da), g1)"
    by (rule profile_cases)
  show ?thesis
    by (simp add: row_churn_spec [OF p] row_fraud_spec [OF p] customer_row_fields(12) [OF p] p)
qed

lemma row_charge:
  "monthly_charge (fst (customer_row smp i g)) =
     py_round2 (20 + 0.05 * of_int (monthly_minutes (fst (customer_row smp i g)))
                   + 2 * monthly_data_gb (fst (customer_row smp i g))
                   + 0.1 * of_int (monthly_sms (fst (customer_row smp i g))))"
proof -
  obtain a al mm md ms mc lp ic cs ct da g1
    where p: "sample_profile smp g = ((a, al, mm, md, ms, mc, lp, ic, cs, ct, da), g1)"
    by (rule profile_cases)
  show ?thesis
    using sample_profile_ranges(10) [OF p] by (simp add: customer_row_fields [OF p])
qed

lemma row_in_ranges:
  assumes "library_contract smp"
  shows "in_ranges (fst (customer_row smp i g))"
proof -
  obtain a al mm md ms mc lp ic cs ct da g1
    where p: "sample_profile smp g = ((a, al, mm, md, ms, mc, lp, ic, cs, ct, da), g1)"
    by (rule profile_cases)
  have b: "\<And>q h. 0 \<le> q \<Longrightarrow> q \<le> 1 \<Longrightarrow> fst (random_binomial smp 1 q h) \<in> {0, 1}"
    using assms by (simp add: library_contract_def)
  have ch: "churned (fst (customer_row smp i g)) \<in> {0, 1}"
    unfolding customer_row_fields(11) [OF p] by (rule b) (rule churn_probability_bounds)+
  have fr: "is_fraud (fst (customer_row smp i g)) \<in> {0, 1}"
    unfolding customer_row_fields(12) [OF p] by (rule b) (rule fraud_probability_bounds)+
  show ?thesis
    using sample_profile_ranges [OF p] sample_profile_counts [OF assms p] ch fr
    by (simp add: in_ranges_def customer_row_fields(1-10) [OF p])
qed

lemma row_fraud_cap:
  assumes c: "c = fst (customer_row smp i g)"
  shows "1 \<le> account_length_months c"
    and "fraud_parameter c =
           0.02 + (if international_calls c > 10 then 0.1 else 0)
                + (if monthly_charge c > 200 then 0.15 else 0)"
    and "fraud_parameter c \<le> 0.27"
    and "min (fraud_parameter c) 0.3 = fraud_parameter c"
    and "is_fraud c =
           fst (random_binomial smp 1 (fraud_parameter c)
                 (snd (random_binomial smp 1 (min (churn_spec c) 0.8)
                        (snd (sample_profile smp g)))))"
proof -
  obtain a al mm md ms mc lp ic cs ct da g1
    where p: "sample_profile smp g = ((a, al, mm, md, ms, mc, lp, ic, cs, ct, da), g1)"
    by (rule profile_cases)
  have al: "1 \<le> al" by (rule sample_profile_ranges(3) [OF p])
  have f: "account_length_months c = al" "international_calls c = ic" "monthly_charge c = mc"
    by (simp_all add: c customer_row_fields [OF p])
  have fp: "fraud_parameter c = fraud_probability ic mc al"
    by (simp add: fraud_parameter_def f)
  have q: "fraud_probability ic mc al =
             0.02 + (if ic > 10 then 0.1 else 0) + (if mc > 200 then 0.15 else 0)"
    using al by (simp add: fraud_probability_def Let_def)
  show "1 \<le> account_length_months c"
    using al by (simp add: f)
  show "fraud_parameter c =
           0.02 + (if international_calls c > 10 then 0.1 else 0)
                + (if monthly_charge c > 200 then 0.15 else 0)"
    by (simp add: fp q f)
  show le: "fraud_parameter c \<le> 0.27" by (simp add: fp q)
  then show m: "min (fraud_parameter c) 0.3 = fraud_parameter c" by simp
  have fs: "fraud_spec c = fraud_parameter c"
    by (simp add: fp fraud_spec_def f fraud_probability_spec)
  show "is_fraud c =
           fst (random_binomial smp 1 (fraud_parameter c)
                 (snd (random_binomial smp 1 (min (churn_spec c) 0.8)
                        (snd (sample_profile smp g)))))"
    using row_is_fraud [of smp i g] unfolding c [symmetric] by (simp add: fs m)
qed

lemma toy_contract: "library_contract toy"
  by (simp add: library_contract_def toy_def)

subsection \<open>The risk models\<close>

text \<open>
  Claim C1. The generator returns a table of \<open>num_customers\<close> rows, and in every row the
  field \<open>churned\<close> is the answer of one call \<open>np.random.binomial(1, min(p, 0.8))\<close>, where
  \<open>p\<close> is 0.05 plus 0.30 if \<open>late_payments > 2\<close>, plus 0.20 if
  \<open>customer_service_calls > 3\<close>, plus 0.15 if \<open>monthly_charge > 80\<close>, plus 0.25 if
  \<open>account_length_months < 3\<close>, plus 0.10 if \<open>age < 25\<close> or \<open>age > 65\<close>, all read from the
  fields of that same row. The call is made on the stream as it is right after the fields
  of the row were sampled.
\<close>

theorem C1_churn_bernoulli:
  "\<exists>df g'. generate_telecom_customer_data smp n g0 = Inr (df, g') \<and> length df = nat n \<and>
     (\<forall>k < nat n. churned (df ! k) =
        fst (random_binomial smp 1 (min (churn_spec (df ! k)) 0.8)
              (snd (sample_profile smp (stream_at smp k)))))"
  by (simp add: generate_table row_churned)

theorem C1_churn_bernoulli_witness:
  "(1::nat) < nat 2 \<and>
   (\<exists>df g'. generate_telecom_customer_data toy 2 0 = Inr (df, g') \<and>
      churned (df ! 1) =
        fst (random_binomial toy 1 (min (churn_spec (df ! 1)) 0.8)
              (snd (sample_profile toy (stream_at toy 1)))))"
  using C1_churn_bernoulli [of toy 2 0] by auto

text \<open>
  Claim C2. In every row of the table the field \<open>is_fraud\<close> is the answer of one call
  \<open>np.random.binomial(1, min(q, 0.3))\<close>, where \<open>q\<close> is 0.02 plus 0.10 if
  \<open>international_calls > 10\<close>, plus 0.15 if \<open>monthly_charge > 200\<close>, plus 0.20 if
  \<open>account_length_months < 1\<close>, all read from the fields of that same row. The call is made
  on the stream as the churn draw of the row leaves it.
\<close>

theorem C2_fraud_bernoulli:
  "\<exists>df g'. generate_telecom_customer_data smp n g0 = Inr (df, g') \<and> length df = nat n \<and>
     (\<forall>k < nat n. is_fraud (df ! k) =
        fst (random_binomial smp 1 (min (fraud_spec (df ! k)) 0.3)
              (snd (random_binomial smp 1 (min (churn_spec (df ! k)) 0.8)
                     (snd (sample_profile smp (stream_at smp k)))))))"
  by (simp add: generate_table row_is_fraud)

theorem C2_fraud_bernoulli_witness:
  "(2::nat) < nat 3 \<and>
   (\<exists>df g'. generate_telecom_customer_data toy 3 0 = Inr (df, g') \<and>
      is_fraud (df ! 2) =
        fst (random_binomial toy 1 (min (fraud_spec (df ! 2)) 0.3)
              (snd (random_binomial toy 1 (min (churn_spec (df ! 2)) 0.8)
                     (snd (sample_profile toy (stream_at toy 2)))))))"
  using C2_fraud_bernoulli [of toy 3 0] by auto

subsection \<open>Billing consistency\<close>

text \<open>
  Claim C3. In every row of the table, \<open>monthly_charge\<close> is
  \<open>20 + 0.05 * monthly_minutes + 2 * monthly_data_gb + 0.1 * monthly_sms\<close> of that same
  row, rounded to two decimals.
\<close>

theorem C3_billing:
  "\<exists>df g'. generate_telecom_customer_data smp n g0 = Inr (df, g') \<and> length df = nat n \<and>
     (\<forall>k < nat n. monthly_charge (df ! k) =
        py_round2 (20 + 0.05 * of_int (monthly_minutes (df ! k))
                      + 2 * monthly_data_gb (df ! k)
                      + 0.1 * of_int (monthly_sms (df ! k))))"
  by (simp add: generate_table row_charge)

theorem C3_billing_witness:
  "(0::nat) < nat 1 \<and>
   (\<exists>df g'. generate_telecom_customer_data toy 1 0 = Inr (df, g') \<and>
      monthly_charge (df ! 0) =
        py_round2 (20 + 0.05 * of_int (monthly_minutes (df ! 0))
                      + 2 * monthly_data_gb (df ! 0)
                      + 0.1 * of_int (monthly_sms (df ! 0))))"
  using C3_billing [of toy 1 0] by auto

subsection \<open>Field ranges\<close>

text \<open>
  Claim C4. When the library keeps its contract (Poisson draws are non-negative, a
  binomial draw of one trial is 0 or 1), every row of the table has \<open>age\<close> in [18, 80],
  \<open>account_length_months\<close> in [1, 120], \<open>device_age_months\<close> in [1, 60],
  \<open>monthly_data_gb\<close> at least 0.1, the five counts non-negative integers, and \<open>churned\<close>
  and \<open>is_fraud\<close> in {0, 1}.
\<close>

theorem C4_ranges:
  assumes "library_contract smp"
  shows "\<exists>df g'. generate_telecom_customer_data smp n g0 = Inr (df, g') \<and>
     (\<forall>c \<in> set df.
        18 \<le> age c \<and> age c \<le> 80 \<and>
        1 \<le> account_length_months c \<and> account_length_months c \<le> 120 \<and>
        1 \<le> device_age_months c \<and> device_age_months c \<le> 60 \<and>
        0.1 \<le> monthly_data_gb c \<and>
        0 \<le> monthly_minutes c \<and> 0 \<le> monthly_sms c \<and> 0 \<le> international_calls c \<and>
        0 \<le> customer_service_calls c \<and> 0 \<le> late_payments c \<and>
        churned c \<in> {0, 1} \<and> is_fraud c \<in> {0, 1})"
proof -
  have "\<forall>c \<in> set (map (\<lambda>k. fst (customer_row smp k (stream_at smp k))) [0 ..< nat n]).
          in_ranges c"
    by (simp add: row_in_ranges [OF assms])
  then show ?thesis
    unfolding in_ranges_def generate_table by blast
qed

theorem C4_ranges_witness:
  "library_contract toy \<and>
   (\<exists>df g'. generate_telecom_customer_data toy 2 0 = Inr (df, g') \<and> length df = 2 \<and>
      18 \<le> age (df ! 1) \<and> age (df ! 1) \<le> 80 \<and>
      1 \<le> account_length_months (df ! 1) \<and> account_length_months (df ! 1) \<le> 120 \<and>
      1 \<le> device_age_months (df ! 1) \<and> device_age_months (df ! 1) \<le> 60 \<and>
      0.1 \<le> monthly_data_gb (df ! 1) \<and>
      0 \<le> monthly_minutes (df ! 1) \<and> 0 \<le> monthly_sms (df ! 1) \<and>
      0 \<le> international_calls (df ! 1) \<and> 0 \<le> customer_service_calls (df ! 1) \<and>
      0 \<le> late_payments (df ! 1) \<and>
      churned (df ! 1) \<in> {0, 1} \<and> is_fraud (df ! 1) \<in> {0, 1})"
proof -
  obtain df g' where r: "generate_telecom_customer_data toy 2 0 = Inr (df, g')"
    and p: "\<forall>c \<in> set df.
        18 \<le> age c \<and> age c \<le> 80 \<and>
        1 \<le> account_length_months c \<and> account_length_months c \<le> 120 \<and>
        1 \<le> device_age_months c \<and> device_age_months c \<le> 60 \<and>
        0.1 \<le> monthly_data_gb c \<and>
        0 \<le> monthly_minutes c \<and> 0 \<le> monthly_sms c \<and> 0 \<le> international_calls c \<and>
        0 \<le> customer_service_calls c \<and> 0 \<le> late_payments c \<and>
        churned c \<in> {0, 1} \<and> is_fraud c \<in> {0, 1}"
    using C4_ranges [OF toy_contract, of 2 0] by blast
  have len: "length df = 2"
    using r by (auto simp add: generate_table)
  then have "df ! 1 \<in> set df" by simp
  with p r len toy_contract show ?thesis by blast
qed

subsection \<open>The fraud cap\<close>

text \<open>
  Claim C9. In every row of the table \<open>account_length_months\<close> is at least 1, so the
  increment guarded by \<open>account_length < 1\<close> is never added: the fraud risk score of the
  row is 0.02 plus the two other increments, it is at most 0.27, the cap 0.3 leaves it
  unchanged, and \<open>is_fraud\<close> is drawn with the score itself as parameter.
\<close>

theorem C9_fraud_cap:
  "\<exists>df g'. generate_telecom_customer_data smp n g0 = Inr (df, g') \<and> length df = nat n \<and>
     (\<forall>k < nat n.
        1 \<le> account_length_months (df ! k) \<and>
        fraud_parameter (df ! k) =
          0.02 + (if international_calls (df ! k) > 10 then 0.1 else 0)
               + (if monthly_charge (df ! k) > 200 then 0.15 else 0) \<and>
        fraud_parameter (df ! k) \<le> 0.27 \<and>
        min (fraud_parameter (df ! k)) 0.3 = fraud_parameter (df ! k) \<and>
        is_fraud (df ! k) =
          fst (random_binomial smp 1 (fraud_parameter (df ! k))
                (snd (random_binomial smp 1 (min (churn_spec (df ! k)) 0.8)
                       (snd (sample_profile smp (stream_at smp k)))))))"
proof -
  let ?df = "map (\<lambda>k. fst (customer_row smp k (stream_at smp k))) [0 ..< nat n]"
  have "\<forall>k < nat n.
        1 \<le> account_length_months (?df ! k) \<and>
        fraud_parameter (?df ! k) =
          0.02 + (if international_calls (?df ! k) > 10 then 0.1 else 0)
               + (if monthly_charge (?df ! k) > 200 then 0.15 else 0) \<and>
        fraud_parameter (?df ! k) \<le> 0.27 \<and>
        min (fraud_parameter (?df ! k)) 0.3 = fraud_parameter (?df ! k) \<and>
        is_fraud (?df ! k) =
          fst (random_binomial smp 1 (fraud_parameter (?df ! k))
                (snd (random_binomial smp 1 (min (churn_spec (?df ! k)) 0.8)
                       (snd (sample_profile smp (stream_at smp k))))))"
  proof (intro allI impI)
    fix k assume k: "k < nat n"
    have c: "?df ! k = fst (customer_row smp k (stream_at smp k))"
      using k by simp
    show "1 \<le> account_length_months (?df ! k) \<and>
        fraud_parameter (?df ! k) =
          0.02 + (if international_calls (?df ! k) > 10 then 0.1 else 0)
               + (if monthly_charge (?df ! k) > 200 then 0.15 else 0) \<and>
        fraud_parameter (?df ! k) \<le> 0.27 \<and>
        min (fraud_parameter (?df ! k)) 0.3 = fraud_parameter (?df ! k) \<and>
        is_fraud (?df ! k) =
          fst (random_binomial smp 1 (fraud_parameter (?df ! k))
                (snd (random_binomial smp 1 (min (churn_spec (?df ! k)) 0.8)
                       (snd (sample_profile smp (stream_at smp k))))))"
      by (intro conjI) (rule row_fraud_cap [OF c])+
  qed
  moreover have "length ?df = nat n" by simp
  ultimately show ?thesis
    unfolding generate_table by blast
qed

theorem C9_fraud_cap_witness:
  "(1::nat) < nat 3 \<and>
   (\<exists>df g'. generate_telecom_customer_data toy 3 0 = Inr (df, g') \<and>
      1 \<le> account_length_months (df ! 1) \<and>
      fraud_parameter (df ! 1) \<le> 0.27 \<and>
      min (fraud_parameter (df ! 1)) 0.3 = fraud_parameter (df ! 1) \<and>
      is_fraud (df ! 1) =
        fst (random_binomial toy 1 (fraud_parameter (df ! 1))
              (snd (random_binomial toy 1 (min (churn_spec (df ! 1)) 0.8)
                     (snd (sample_profile toy (stream_at toy 1)))))))"
  using C9_fraud_cap [of toy 3 0] by auto

subsection \<open>Seeding and the empty population\<close>

text \<open>
  Claim C10. The generator has no seed parameter and starts by seeding the stream with
  the constant 42; for a fixed \<open>num_customers\<close>, two calls return the same table (and
  leave the same stream) whatever the stream state was before each call.
\<close>

theorem C10_reseed:
  "generate_telecom_customer_data smp n g1 = generate_telecom_customer_data smp n g2"
  by (simp add: generate_telecom_customer_data_def)

text \<open>
  Claim C6, as the specification states it, asks for a configuration error when the
  population size is zero or negative. The source has no such check: the loop body is
  never entered and the empty table is returned.
\<close>

theorem C6_counterexample:
  "generate_telecom_customer_data toy 0 0 = Inr ([], 42) \<and>
   generate_telecom_customer_data toy 0 0 \<noteq> Inl ValueError"
  by (simp add: generate_telecom_customer_data_def toy_def)

text \<open>
  Claim C6, amended. For a population size of zero or negative the generator raises
  nothing: it returns the empty table, and the stream it leaves is the freshly seeded
  one, so no value was drawn.
\<close>

theorem C6_empty_population:
  "n \<le> 0 \<Longrightarrow> generate_telecom_customer_data smp n g0 = Inr ([], random_seed smp 42)"
  by (simp add: generate_telecom_customer_data_def)

theorem C6_empty_population_witness:
  "(-3::int) \<le> 0 \<and> generate_telecom_customer_data toy (-3) 7 = Inr ([], 42)"
  using C6_empty_population [of "-3" toy 7] by (simp add: toy_def)

section \<open>The transaction table\<close>

subsection \<open>Running the model on the concrete sampler\<close>

lemma toy_profile:
  "sample_profile toy 42 =
     ((59, 36, 2800, 5 / 2, 7, 1657 / 10, 3, 0, 1, ''Prepaid'', 27), 52)"
  by (simp add: sample_profile_def toy_def py_int_def py_round2_def round_half_even_def Let_def)
    code_simp

lemma toy_row: "customer_row toy 0 42 = (sample_customer, 55)"
  by (simp add: customer_row_def toy_profile churn_probability_def fraud_probability_def Let_def
        sample_customer_def)
    (simp add: toy_def, code_simp)

lemma toy_seed: "random_seed toy 42 = 42"
  by (simp add: toy_def)

lemma toy_table: "generate_telecom_customer_data toy 1 g = Inr ([sample_customer], 55)"
  by (simp add: generate_telecom_customer_data_def toy_seed toy_row)

lemma toy_transaction:
  "make_transaction toy clock sample_customer txs (g, t) =
     (\<lparr>txn_customer_id = ''CUST_000001'',
       transaction_id = ''TXN_'' @ zero_pad 8 (length txs + 1),
       amount = max 1 (real (g mod 5) * 700),
       transaction_type = transaction_types ! ((g + 2) mod 5),
       timestamp = clock t - (int (g + 1) mod 90) * microseconds_per_day,
       txn_is_fraud = 0\<rparr>, (g + 3, t + 1))"
  by (simp add: make_transaction_def sample_customer_def toy_def Let_def py_round2_def
        round_half_even_def transaction_types_def)

lemma transaction_loop_numeral:
  "transaction_loop smp clock c (numeral n) txs s =
     (let (t, s') = make_transaction smp clock c txs s
      in transaction_loop smp clock c (pred_numeral n) (txs @ [t]) s')"
  by (simp add: numeral_eq_Suc)

lemma toy_pads:
  "zero_pad 8 (Suc 0) = ''00000001''" "zero_pad 8 (Suc (Suc 0)) = ''00000002''"
  "zero_pad 8 (Suc (Suc (Suc 0))) = ''00000003''"
  by code_simp+

lemma toy_poisson_checked:
  "0 \<le> lam \<Longrightarrow> lam \<le> 1000 \<Longrightarrow>
   poisson_checked toy lam g = Inr (\<lfloor>lam / 10\<rfloor> + int (g mod 4), g + 1)"
  by (simp add: poisson_checked_def toy_def)

lemma toy_transactions:
  "generate_transaction_data toy clock [sample_customer] (Some 1) (55, 0) =
     Inr (sample_transactions clock, (65, 3))"
  by (simp add: generate_transaction_data_def toy_poisson_checked transaction_loop_numeral
        toy_transaction toy_pads transaction_types_def microseconds_per_day_def
        numeral_2_eq_2 sample_transactions_def)

lemma toy_pipeline:
  "run_pipeline toy clock 1 1 (g, 0) = Inr ([sample_customer], sample_transactions clock)"
  by (simp add: run_pipeline_def toy_table toy_transactions)

subsection \<open>Transactions refer to rows of the customer table\<close>

lemma make_transaction_fields:
  "txn_customer_id (fst (make_transaction smp clock c txs s)) = customer_id c"
  "txn_is_fraud (fst (make_transaction smp clock c txs s)) = is_fraud c"
  by (simp_all add: make_transaction_def Let_def split_def)

lemma transaction_loop_copies:
  "c \<in> set df \<Longrightarrow> \<forall>t \<in> set txs. copies_of df t \<Longrightarrow>
   \<forall>t \<in> set (fst (transaction_loop smp clock c k txs s)). copies_of df t"
proof (induction k arbitrary: txs s)
  case 0
  then show ?case by simp
next
  case (Suc k)
  obtain t s' where m: "make_transaction smp clock c txs s = (t, s')"
    by (cases "make_transaction smp clock c txs s")
  have "copies_of df t"
    using Suc.prems(1) make_transaction_fields [of smp clock c txs s]
    unfolding copies_of_def m by auto
  then have "\<forall>x \<in> set (txs @ [t]). copies_of df x"
    using Suc.prems(2) by simp
  from Suc.IH [OF Suc.prems(1) this] show ?case
    by (simp add: m)
qed

lemma rows_loop_copies:
  "set rest \<subseteq> set df \<Longrightarrow> \<forall>t \<in> set txs. copies_of df t \<Longrightarrow>
   rows_loop smp clock lam rest txs s = Inr (out, s') \<Longrightarrow>
   \<forall>t \<in> set out. copies_of df t"
proof (induction rest arbitrary: txs s)
  case Nil
  then show ?case by simp
next
  case (Cons c rest)
  from Cons.prems(3) obtain m g where
    p: "poisson_checked smp lam (fst s) = Inr (m, g)"
    by (auto split: sum.splits)
  obtain txs' s1 where
    l: "transaction_loop smp clock c (nat m) txs (g, snd s) = (txs', s1)"
    by (cases "transaction_loop smp clock c (nat m) txs (g, snd s)")
  have r: "rows_loop smp clock lam rest txs' s1 = Inr (out, s')"
    using Cons.prems(3) by (simp add: p l)
  have "c \<in> set df" using Cons.prems(1) by simp
  from transaction_loop_copies [OF this Cons.prems(2), of smp clock "nat m" "(g, snd s)"]
  have "\<forall>t \<in> set txs'. copies_of df t" by (simp add: l)
  moreover have "set rest \<subseteq> set df" using Cons.prems(1) by simp
  ultimately show ?case using Cons.IH r by blast
qed

text \<open>
  Claim C7. Whenever the transaction generator returns a table, every transaction in it
  carries the \<open>customer_id\<close> of some row of the customer table it was given, and its
  \<open>is_fraud\<close> is the \<open>is_fraud\<close> of that same row.
\<close>

theorem C7_foreign_key:
  assumes "generate_transaction_data smp clock customer_df lam_opt s = Inr (txns, s')"
  shows "\<forall>t \<in> set txns. \<exists>c \<in> set customer_df.
           txn_customer_id t = customer_id c \<and> txn_is_fraud t = is_fraud c"
proof -
  have "\<forall>t \<in> set txns. copies_of customer_df t"
    using assms unfolding generate_transaction_data_def Let_def
    by (rule rows_loop_copies [rotated 2]) simp_all
  then show ?thesis by (simp add: copies_of_def)
qed

theorem C7_foreign_key_witness:
  "generate_transaction_data toy (\<lambda>k. 0) [sample_customer] (Some 1) (55, 0) =
     Inr (sample_transactions (\<lambda>k. 0), (65, 3)) \<and>
   txn_customer_id (sample_transactions (\<lambda>k. 0) ! 2) = customer_id sample_customer \<and>
   txn_is_fraud (sample_transactions (\<lambda>k. 0) ! 2) = is_fraud sample_customer"
  using C7_foreign_key [OF toy_transactions [of "\<lambda>k. 0"]] toy_transactions [of "\<lambda>k. 0"]
  by (simp add: sample_transactions_def)

subsection \<open>The default mean\<close>

lemma transaction_loop_length:
  "length (fst (transaction_loop smp clock c k txs s)) = length txs + k"
  by (induction k arbitrary: txs s) (simp_all add: split_def Let_def)

lemma single_customer_length:
  assumes "poisson_checked smp lam g = Inr (m, h)"
  shows "map_sum id (length \<circ> fst) (rows_loop smp clock lam [c] [] (g, t)) = Inr (nat m)"
  using transaction_loop_length [of smp clock c "nat m" "[]" "(h, t)"]
  by (simp add: assms split_def Let_def)

text \<open>
  Claim C8, as the specification states it, gives 30 as the mean used when the caller
  supplies none. The default of the parameter is 50: on one customer, with a sampler whose
  Poisson draw grows with the mean, the call without the argument yields five
  transactions and the call with 30 yields three.
\<close>

theorem C8_counterexample:
  "map_sum id (length \<circ> fst)
     (generate_transaction_data toy (\<lambda>k. 0) [sample_customer] None (56, 0)) = Inr 5 \<and>
   map_sum id (length \<circ> fst)
     (generate_transaction_data toy (\<lambda>k. 0) [sample_customer] (Some 30) (56, 0)) = Inr 3 \<and>
   generate_transaction_data toy (\<lambda>k. 0) [sample_customer] None (56, 0) \<noteq>
   generate_transaction_data toy (\<lambda>k. 0) [sample_customer] (Some 30) (56, 0)"
proof -
  have a: "map_sum id (length \<circ> fst)
     (generate_transaction_data toy (\<lambda>k. 0) [sample_customer] None (56, 0)) = Inr 5"
    using single_customer_length [OF toy_poisson_checked [of 50 56], of "\<lambda>k. 0" sample_customer 0]
    by (simp add: generate_transaction_data_def default_transactions_per_customer_def)
  have b: "map_sum id (length \<circ> fst)
     (generate_transaction_data toy (\<lambda>k. 0) [sample_customer] (Some 30) (56, 0)) = Inr 3"
    using single_customer_length [OF toy_poisson_checked [of 30 56], of "\<lambda>k. 0" sample_customer 0]
    by (simp add: generate_transaction_data_def)
  from a b show ?thesis by auto
qed

text \<open>
  Claim C8, amended. When the mean is not supplied, the transaction generator uses the
  default value 50; the script does not rely on the default and passes 30.
\<close>

theorem C8_default:
  "generate_transaction_data smp clock customer_df None s =
     generate_transaction_data smp clock customer_df (Some 50) s \<and>
   script smp clock s = run_pipeline smp clock 10000 30 s"
  by (simp add: generate_transaction_data_def default_transactions_per_customer_def script_def)

subsection \<open>Determinism up to the clock\<close>

lemma make_transaction_rel:
  assumes "length txa = length txb"
  shows "untimed (fst (make_transaction smp ca cust txa (g, ta))) =
         untimed (fst (make_transaction smp cb cust txb (g, tb)))"
    and "snd (make_transaction smp ca cust txa (g, ta)) =
           (fst (snd (make_transaction smp cb cust txb (g, tb))), ta + 1)"
    and "snd (snd (make_transaction smp cb cust txb (g, tb))) = tb + 1"
    and "ca ta = cb tb \<Longrightarrow>
         fst (make_transaction smp ca cust txa (g, ta)) =
         fst (make_transaction smp cb cust txb (g, tb))"
  using assms by (simp_all add: make_transaction_def Let_def split_def untimed_def)

lemma transaction_loop_rel:
  assumes "map untimed txs1 = map untimed txs2"
  shows "\<exists>out1 out2 g'.
     transaction_loop smp c1 cust k txs1 (g, T1 + d) = (out1, (g', T1 + d + k)) \<and>
     transaction_loop smp c2 cust k txs2 (g, T2 + d) = (out2, (g', T2 + d + k)) \<and>
     map untimed out1 = map untimed out2 \<and>
     ((\<forall>j. c1 (T1 + j) = c2 (T2 + j)) \<longrightarrow> txs1 = txs2 \<longrightarrow> out1 = out2)"
  using assms
proof (induction k arbitrary: txs1 txs2 g d)
  case 0
  then show ?case by simp
next
  case (Suc k)
  have len: "length txs1 = length txs2"
    using Suc.prems by (metis length_map)
  obtain x1 h1 u1 where m1: "make_transaction smp c1 cust txs1 (g, T1 + d) = (x1, (h1, u1))"
    by (metis surj_pair)
  obtain x2 h2 u2 where m2: "make_transaction smp c2 cust txs2 (g, T2 + d) = (x2, (h2, u2))"
    by (metis surj_pair)
  have u: "untimed x1 = untimed x2"
    using make_transaction_rel(1) [OF len, of smp c1 cust g "T1 + d" c2 "T2 + d"]
    by (simp add: m1 m2)
  have h: "h1 = h2" "u1 = T1 + (d + 1)"
    using make_transaction_rel(2) [OF len, of smp c1 cust g "T1 + d" c2 "T2 + d"]
    by (simp_all add: m1 m2)
  have u2: "u2 = T2 + (d + 1)"
    using make_transaction_rel(3) [OF len, of smp c2 cust g "T2 + d"]
    by (simp add: m2)
  have x: "c1 (T1 + d) = c2 (T2 + d) \<Longrightarrow> x1 = x2"
    using make_transaction_rel(4) [OF len, of c1 "T1 + d" c2 "T2 + d" smp cust g]
    by (simp add: m1 m2)
  have acc: "map untimed (txs1 @ [x1]) = map untimed (txs2 @ [x2])"
    using Suc.prems u by simp
  from Suc.IH [OF acc, of h2 "d + 1"] obtain out1 out2 g' where
    l1: "transaction_loop smp c1 cust k (txs1 @ [x1]) (h2, T1 + (d + 1)) =
           (out1, (g', T1 + (d + 1) + k))"
    and l2: "transaction_loop smp c2 cust k (txs2 @ [x2]) (h2, T2 + (d + 1)) =
           (out2, (g', T2 + (d + 1) + k))"
    and lu: "map untimed out1 = map untimed out2"
    and le: "(\<forall>j. c1 (T1 + j) = c2 (T2 + j)) \<longrightarrow> txs1 @ [x1] = txs2 @ [x2] \<longrightarrow> out1 = out2"
    by blast
  have e: "(\<forall>j. c1 (T1 + j) = c2 (T2 + j)) \<longrightarrow> txs1 = txs2 \<longrightarrow> out1 = out2"
    using le x by simp
  show ?case
    using l1 l2 lu e by (simp add: m1 m2 h u2)
qed

lemma rows_loop_rel:
  assumes "map untimed txs1 = map untimed txs2"
  shows "(\<exists>e. rows_loop smp c1 lam rest txs1 (g, T1 + d) = Inl e \<and>
              rows_loop smp c2 lam rest txs2 (g, T2 + d) = Inl e) \<or>
     (\<exists>out1 out2 g' d'.
        rows_loop smp c1 lam rest txs1 (g, T1 + d) = Inr (out1, (g', T1 + d')) \<and>
        rows_loop smp c2 lam rest txs2 (g, T2 + d) = Inr (out2, (g', T2 + d')) \<and>
        map untimed out1 = map untimed out2 \<and>
        ((\<forall>j. c1 (T1 + j) = c2 (T2 + j)) \<longrightarrow> txs1 = txs2 \<longrightarrow> out1 = out2))"
  using assms
proof (induction rest arbitrary: txs1 txs2 g d)
  case Nil
  then show ?case by auto
next
  case (Cons cust rest)
  show ?case
  proof (cases "poisson_checked smp lam g")
    case (Inl e)
    then show ?thesis by simp
  next
    case (Inr r)
    obtain m h where r: "r = (m, h)" by (cases r)
    from transaction_loop_rel [OF Cons.prems, of smp c1 cust "nat m" h T1 d c2 T2]
    obtain out1 out2 g' where
      l1: "transaction_loop smp c1 cust (nat m) txs1 (h, T1 + d) = (out1, (g', T1 + d + nat m))"
      and l2: "transaction_loop smp c2 cust (nat m) txs2 (h, T2 + d) = (out2, (g', T2 + d + nat m))"
      and lu: "map untimed out1 = map untimed out2"
      and le: "(\<forall>j. c1 (T1 + j) = c2 (T2 + j)) \<longrightarrow> txs1 = txs2 \<longrightarrow> out1 = out2"
      by blast
    have s1: "rows_loop smp c1 lam (cust # rest) txs1 (g, T1 + d) =
                rows_loop smp c1 lam rest out1 (g', T1 + (d + nat m))"
      by (simp add: Inr r l1 add.assoc)
    have s2: "rows_loop smp c2 lam (cust # rest) txs2 (g, T2 + d) =
                rows_loop smp c2 lam rest out2 (g', T2 + (d + nat m))"
      by (simp add: Inr r l2 add.assoc)
    from Cons.IH [OF lu, of g' "d + nat m"] le show ?thesis
      unfolding s1 s2 by blast
  qed
qed

lemma generate_transaction_data_rel:
  "(\<exists>e. generate_transaction_data smp c1 df lam (g, t1) = Inl e \<and>
         generate_transaction_data smp c2 df lam (g, t2) = Inl e) \<or>
   (\<exists>out1 out2 s1 s2.
      generate_transaction_data smp c1 df lam (g, t1) = Inr (out1, s1) \<and>
      generate_transaction_data smp c2 df lam (g, t2) = Inr (out2, s2) \<and>
      map untimed out1 = map untimed out2 \<and>
      ((\<forall>j. c1 (t1 + j) = c2 (t2 + j)) \<longrightarrow> out1 = out2))"
  using rows_loop_rel [of "[]" "[]" smp c1 _ df g t1 0 c2 t2]
  unfolding generate_transaction_data_def Let_def by fastforce

text \<open>
  Claim C5, as the specification states it, makes both output tables a function of the
  population size, the mean and the seed. The timestamp of a transaction is computed from
  \<open>datetime.now()\<close>: two runs of the pipeline with the same sampler, one customer and mean
  1, whose clocks differ by one day, produce different transaction tables.
\<close>

theorem C5_counterexample:
  "run_pipeline toy (\<lambda>k. 0) 1 1 (0, 0) \<noteq> run_pipeline toy (\<lambda>k. 86400000000) 1 1 (0, 0)"
  by (simp add: toy_pipeline sample_transactions_def)

text \<open>
  Claim C5, amended. Two runs of the pipeline with the same population size and the same
  mean (the seed is the constant 42) produce the same customer table and transaction
  tables that agree in every field except \<open>timestamp\<close>, whatever the stream states and the
  clocks of the two runs; when the two clocks give the same readings, the transaction
  tables are identical as well.
\<close>

theorem C5_determinism:
  "map_sum id (map_prod id (map untimed)) (run_pipeline smp clock1 n lam (g1, t1)) =
   map_sum id (map_prod id (map untimed)) (run_pipeline smp clock2 n lam (g2, t2)) \<and>
   ((\<forall>j. clock1 (t1 + j) = clock2 (t2 + j)) \<longrightarrow>
      run_pipeline smp clock1 n lam (g1, t1) = run_pipeline smp clock2 n lam (g2, t2))"
  using generate_transaction_data_rel
          [of smp clock1 "map (\<lambda>k. fst (customer_row smp k (stream_at smp k))) [0 ..< nat n]"
              "Some lam" "stream_at smp (nat n)" t1 clock2 t2]
  by (auto simp add: run_pipeline_def generate_table)

theorem C5_determinism_witness:
  "(\<forall>j. (\<lambda>k. int k * 1000) (0 + j) = (\<lambda>k. (int k - 3) * 1000) (3 + j)) \<and>
   run_pipeline toy (\<lambda>k. int k * 1000) 1 1 (0, 0) =
   run_pipeline toy (\<lambda>k. (int k - 3) * 1000) 1 1 (7, 3)"
  using C5_determinism [where smp = toy and ?clock1.0 = "\<lambda>k. int k * 1000" and n = 1 and lam = 1
          and ?g1.0 = 0 and ?t1.0 = 0 and ?clock2.0 = "\<lambda>k. (int k - 3) * 1000" and ?g2.0 = 7
          and ?t2.0 = 3]
  by simp

end
